theory Spec2Isabelle
  imports Complex_Main "HOL-Library.AList" "HOL-Library.Monad_Syntax"
begin

section \<open>Values, dictionaries and errors\<close>

text \<open>
  The backend moves JSON-like values between pydantic models, Python dictionaries, the
  payload of a bearer token and the documents of the store. A dictionary is an
  association list: Python dictionaries and store documents keep the order in which
  their keys were first written, and an assignment to an existing key replaces the
  value in place.

  A \<open>datetime\<close> is a number of microseconds since the epoch, the resolution of Python's
  clock, and a \<open>timedelta\<close> a number of microseconds. \<open>VDatetime t\<close> is the \<open>datetime\<close>
  object itself and \<open>VIso t\<close> stands for the string \<open>t.isoformat()\<close>, which is what the
  routes write into the store for a timestamp and what pydantic reads back as the same
  \<open>t\<close>.
  A Python \<open>float\<close> is a real number here: the routes only copy and compare such values.
\<close>

type_synonym time = int
type_synonym timedelta = int

datatype jvalue =
    VNull
  | VStr string
  | VInt int
  | VFloat real
  | VBool bool
  | VList "string list"
  | VDatetime time
  | VIso time

type_synonym dict = "(string \<times> jvalue) list"

definition dict_get :: "dict \<Rightarrow> string \<Rightarrow> jvalue option" where
  "dict_get d k = map_of d k"

definition dict_set :: "dict \<Rightarrow> string \<Rightarrow> jvalue \<Rightarrow> dict" where
  "dict_set d k v = AList.update k v d"

fun dict_update :: "dict \<Rightarrow> dict \<Rightarrow> dict" where
  "dict_update d [] = d"
| "dict_update d ((k, v) # e) = dict_update (dict_set d k v) e"

text \<open>
  \<open>HTTPException\<close> is FastAPI's exception with its status code and detail.
  \<open>ValidationError\<close> is pydantic's exception, \<open>TypeError\<close> and \<open>AttributeError\<close> are
  Python's; no route catches any of the three, so a request that raises one ends as a
  server error.
\<close>

datatype error =
    HTTPException (status_code: nat) (detail: string)
  | ValidationError
  | TypeError
  | AttributeError

section \<open>auth.py\<close>

type_synonym environ = "string \<rightharpoonup> string"

definition environ_get :: "environ \<Rightarrow> string \<Rightarrow> string \<Rightarrow> string" where
  "environ_get env k dflt = (case env k of None \<Rightarrow> dflt | Some v \<Rightarrow> v)"

definition ADMIN_USERNAME :: "environ \<Rightarrow> string" where
  "ADMIN_USERNAME env = environ_get env ''ADMIN_USERNAME'' ''admin''"

definition ADMIN_PASSWORD :: "environ \<Rightarrow> string" where
  "ADMIN_PASSWORD env = environ_get env ''ADMIN_PASSWORD'' ''admin123''"

definition SECRET_KEY :: "environ \<Rightarrow> string" where
  "SECRET_KEY env = environ_get env ''JWT_SECRET_KEY'' ''your-secret-key-change-in-production''"

definition ALGORITHM :: string where
  "ALGORITHM = ''HS256''"

definition verify_admin_credentials :: "environ \<Rightarrow> string \<Rightarrow> string \<Rightarrow> bool" where
  "verify_admin_credentials env username password =
     (username = ADMIN_USERNAME env \<and> password = ADMIN_PASSWORD env)"

subsection \<open>The token library\<close>

text \<open>
  Modelled from the spec: the \<open>jwt\<close> module is a library outside the repository. The
  spec's Token is "a signed, self-contained credential", valid "iff its signature
  verifies against the current secret AND current time < expiration"; verification fails
  "if current time \<ge> embedded expiration", "if signature verification fails" or if the
  "payload is malformed".

  The signature is symbolic: \<open>HMAC alg key payload\<close> is the tag of \<open>payload\<close> under
  \<open>key\<close>, and two tags are equal only if algorithm, key and payload are. A token string
  is either not decodable at all, or carries a payload and a tag; a tampered token is
  one whose tag was computed for another payload. The signature is checked before the
  expiration, which is read from the \<open>exp\<close> entry of the payload.

  The module the source imports under this name, and calls as
  \<open>encode(payload, key, algorithm=...)\<close> and \<open>decode(token, key, algorithms=[...])\<close>, is
  PyJWT, and two facts of that library are part of the model. First, \<open>encode\<close> writes a
  \<open>datetime\<close> that it finds under \<open>exp\<close>, \<open>iat\<close> or \<open>nbf\<close> as a whole number of seconds
  since the epoch, dropping the microseconds, and \<open>decode\<close> compares that number of
  seconds with the current time. Second, \<open>decode\<close> raises \<open>ExpiredSignatureError\<close> for an
  expired token and, for every other failure, a subclass of \<open>InvalidTokenError\<close>; the
  module has no attribute \<open>JWTError\<close>.
\<close>

datatype mac = HMAC string string dict

datatype token = Undecodable string | JWS dict mac

datatype jwt_exception = ExpiredSignatureError | InvalidTokenError

definition time_claims :: "string list" where
  "time_claims = [''exp'', ''iat'', ''nbf'']"

fun numeric_date :: "jvalue \<Rightarrow> jvalue" where
  "numeric_date (VDatetime t) = VInt (t div 1000000)"
| "numeric_date v = v"

definition jwt_encode :: "dict \<Rightarrow> string \<Rightarrow> string \<Rightarrow> token" where
  "jwt_encode payload key algorithm =
     (let claims = map (\<lambda>(k, v). if k \<in> set time_claims then (k, numeric_date v) else (k, v))
                     payload
      in JWS claims (HMAC algorithm key claims))"

definition jwt_decode :: "token \<Rightarrow> string \<Rightarrow> string list \<Rightarrow> time \<Rightarrow> jwt_exception + dict" where
  "jwt_decode tok key algorithms now =
     (case tok of
        Undecodable _ \<Rightarrow> Inl InvalidTokenError
      | JWS payload tag \<Rightarrow>
          if tag \<notin> set (map (\<lambda>alg. HMAC alg key payload) algorithms)
          then Inl InvalidTokenError
          else (case dict_get payload ''exp'' of
                  None \<Rightarrow> Inr payload
                | Some (VInt e) \<Rightarrow>
                    if e * 1000000 \<le> now then Inl ExpiredSignatureError else Inr payload
                | Some _ \<Rightarrow> Inl InvalidTokenError))"

subsection \<open>Issuing and verifying\<close>

text \<open>
  \<open>if expires_delta:\<close> tests the truth value of an optional \<open>timedelta\<close>: \<open>None\<close> is
  false, and so is a \<open>timedelta\<close> of zero.
\<close>

definition truthy :: "timedelta option \<Rightarrow> bool" where
  "truthy expires_delta = (case expires_delta of None \<Rightarrow> False | Some d \<Rightarrow> d \<noteq> 0)"

definition hours :: "int \<Rightarrow> timedelta" where
  "hours h = h * 3600000000"

text \<open>
  \<open>utcnow\<close> is the reading of \<open>datetime.utcnow()\<close> taken by the call. The expiration goes
  into the payload as the \<open>datetime\<close> it is.
\<close>

definition create_access_token :: "environ \<Rightarrow> time \<Rightarrow> dict \<Rightarrow> timedelta option \<Rightarrow> token" where
  "create_access_token env utcnow data expires_delta =
     (let to_encode = data;
          expire = (if truthy expires_delta then utcnow + the expires_delta
                    else utcnow + hours 24);
          to_encode = dict_update to_encode [(''exp'', VDatetime expire)]
      in jwt_encode to_encode (SECRET_KEY env) ALGORITHM)"

definition Token_invalido :: string where
  "Token_invalido = ''Token inv'' @ [CHR 0xC3, CHR 0xA1] @ ''lido''"

definition Token_expirado :: string where
  "Token_expirado = ''Token expirado''"

text \<open>
  \<open>verify_token_try\<close> is the body of the \<open>try\<close> statement, with what it raises: an
  exception of the library, or the function's own \<open>HTTPException\<close> for a payload without
  subject. \<open>now\<close> is the time at which the library checks the expiration.
  \<open>payload.get("sub")\<close> is \<open>None\<close> when the key is absent and when its value is JSON
  \<open>null\<close>.
\<close>

datatype raised = Library jwt_exception | Raised error

definition verify_token_try :: "environ \<Rightarrow> time \<Rightarrow> token \<Rightarrow> raised + jvalue" where
  "verify_token_try env now credentials =
     (case jwt_decode credentials (SECRET_KEY env) [ALGORITHM] now of
        Inl x \<Rightarrow> Inl (Library x)
      | Inr payload \<Rightarrow>
          (case dict_get payload ''sub'' of
             None \<Rightarrow> Inl (Raised (HTTPException 403 Token_invalido))
           | Some VNull \<Rightarrow> Inl (Raised (HTTPException 403 Token_invalido))
           | Some username \<Rightarrow> Inr username))"

text \<open>
  The first \<open>except\<close> clause catches \<open>ExpiredSignatureError\<close>. Every other exception,
  the \<open>HTTPException\<close> of the body among them, goes on to the second clause,
  \<open>except jwt.JWTError\<close>: Python evaluates the expression of the clause to compare the
  exception with it, the module has no attribute of that name, and the \<open>AttributeError\<close>
  of the lookup leaves the function in place of the exception being handled.
\<close>

definition verify_token :: "environ \<Rightarrow> time \<Rightarrow> token \<Rightarrow> error + jvalue" where
  "verify_token env now credentials =
     (case verify_token_try env now credentials of
        Inr username \<Rightarrow> Inr username
      | Inl (Library ExpiredSignatureError) \<Rightarrow> Inl (HTTPException 403 Token_expirado)
      | Inl _ \<Rightarrow> Inl AttributeError)"

section \<open>models.py\<close>

text \<open>
  The three product models share their field names in the source; the record fields carry
  the initial of their class (\<open>p_\<close> for \<open>Product\<close>, \<open>c_\<close> for \<open>ProductCreate\<close>, \<open>u_\<close> for
  \<open>ProductUpdate\<close>, and likewise \<open>l_\<close> for \<open>AdminLogin\<close> and \<open>t_\<close> for \<open>AdminToken\<close>).
\<close>

record Product =
  p_id :: string
  p_name :: string
  p_category :: string
  p_price :: real
  p_image :: string
  p_description :: string
  p_specs :: "string list"
  p_rating :: real
  p_reviews :: int
  p_featured :: bool
  p_affiliateLink :: string
  p_createdAt :: time
  p_updatedAt :: time

record ProductCreate =
  c_name :: string
  c_category :: string
  c_price :: real
  c_image :: string
  c_description :: string
  c_specs :: "string list"
  c_rating :: real
  c_reviews :: int
  c_featured :: bool
  c_affiliateLink :: string

text \<open>
  \<open>ProductCreate_init\<close> builds the model from a request body. The four fields with a
  default are optional: \<open>None\<close> is a body that does not give the field.
\<close>

definition ProductCreate_init ::
  "string \<Rightarrow> string \<Rightarrow> real \<Rightarrow> string \<Rightarrow> string \<Rightarrow> string list option \<Rightarrow> real option \<Rightarrow>
   int option \<Rightarrow> bool option \<Rightarrow> string \<Rightarrow> ProductCreate" where
  "ProductCreate_init name category price image' description specs rating reviews featured
     affiliateLink =
     \<lparr>c_name = name, c_category = category, c_price = price, c_image = image',
      c_description = description,
      c_specs = (case specs of None \<Rightarrow> [] | Some v \<Rightarrow> v),
      c_rating = (case rating of None \<Rightarrow> 4.5 | Some v \<Rightarrow> v),
      c_reviews = (case reviews of None \<Rightarrow> 0 | Some v \<Rightarrow> v),
      c_featured = (case featured of None \<Rightarrow> False | Some v \<Rightarrow> v),
      c_affiliateLink = affiliateLink\<rparr>"

definition ProductCreate_model_dump :: "ProductCreate \<Rightarrow> dict" where
  "ProductCreate_model_dump c =
     [(''name'', VStr (c_name c)),
      (''category'', VStr (c_category c)),
      (''price'', VFloat (c_price c)),
      (''image'', VStr (c_image c)),
      (''description'', VStr (c_description c)),
      (''specs'', VList (c_specs c)),
      (''rating'', VFloat (c_rating c)),
      (''reviews'', VInt (c_reviews c)),
      (''featured'', VBool (c_featured c)),
      (''affiliateLink'', VStr (c_affiliateLink c))]"

definition Product_model_dump :: "Product \<Rightarrow> dict" where
  "Product_model_dump p =
     [(''id'', VStr (p_id p)),
      (''name'', VStr (p_name p)),
      (''category'', VStr (p_category p)),
      (''price'', VFloat (p_price p)),
      (''image'', VStr (p_image p)),
      (''description'', VStr (p_description p)),
      (''specs'', VList (p_specs p)),
      (''rating'', VFloat (p_rating p)),
      (''reviews'', VInt (p_reviews p)),
      (''featured'', VBool (p_featured p)),
      (''affiliateLink'', VStr (p_affiliateLink p)),
      (''createdAt'', VDatetime (p_createdAt p)),
      (''updatedAt'', VDatetime (p_updatedAt p))]"

subsection \<open>Validation of a product\<close>

text \<open>
  \<open>Product(**d)\<close> validates every field of the class against the dictionary: a key that
  is absent takes the field's default, where it has one, and a value of another type,
  \<open>null\<close> among them, is refused, since no field of \<open>Product\<close> is optional. The validators
  accept the values of the field's own type, which are the ones the routes write into a
  product document; pydantic's lenient conversions from other types are left out.

  The three default factories of \<open>Product\<close> are effects: \<open>uuid4\<close> is the identifier that
  \<open>uuid.uuid4()\<close> draws in this call, \<open>utcnow_createdAt\<close> and \<open>utcnow_updatedAt\<close> are the
  readings of the two calls of \<open>datetime.utcnow\<close>, one per field. A factory is called only
  for a key that is absent.
\<close>

record factories =
  uuid4 :: string
  utcnow_createdAt :: time
  utcnow_updatedAt :: time

fun str_value :: "jvalue \<Rightarrow> string option" where
  "str_value (VStr s) = Some s"
| "str_value _ = None"

fun float_value :: "jvalue \<Rightarrow> real option" where
  "float_value (VFloat x) = Some x"
| "float_value (VInt n) = Some (of_int n)"
| "float_value _ = None"

fun int_value :: "jvalue \<Rightarrow> int option" where
  "int_value (VInt n) = Some n"
| "int_value _ = None"

fun bool_value :: "jvalue \<Rightarrow> bool option" where
  "bool_value (VBool b) = Some b"
| "bool_value _ = None"

fun list_value :: "jvalue \<Rightarrow> string list option" where
  "list_value (VList xs) = Some xs"
| "list_value _ = None"

fun datetime_value :: "jvalue \<Rightarrow> time option" where
  "datetime_value (VDatetime t) = Some t"
| "datetime_value (VIso t) = Some t"
| "datetime_value _ = None"

definition required :: "(jvalue \<Rightarrow> 'a option) \<Rightarrow> dict \<Rightarrow> string \<Rightarrow> 'a option" where
  "required validate d k = (case dict_get d k of None \<Rightarrow> None | Some v \<Rightarrow> validate v)"

definition with_default :: "(jvalue \<Rightarrow> 'a option) \<Rightarrow> 'a \<Rightarrow> dict \<Rightarrow> string \<Rightarrow> 'a option" where
  "with_default validate dflt d k =
     (case dict_get d k of None \<Rightarrow> Some dflt | Some v \<Rightarrow> validate v)"

definition Product_fields :: "factories \<Rightarrow> dict \<Rightarrow> Product option" where
  "Product_fields f d = do {
     v_id \<leftarrow> with_default str_value (uuid4 f) d ''id'';
     v_name \<leftarrow> required str_value d ''name'';
     v_category \<leftarrow> required str_value d ''category'';
     v_price \<leftarrow> required float_value d ''price'';
     v_image \<leftarrow> required str_value d ''image'';
     v_description \<leftarrow> required str_value d ''description'';
     v_specs \<leftarrow> with_default list_value [] d ''specs'';
     v_rating \<leftarrow> with_default float_value 4.5 d ''rating'';
     v_reviews \<leftarrow> with_default int_value 0 d ''reviews'';
     v_featured \<leftarrow> with_default bool_value False d ''featured'';
     v_affiliateLink \<leftarrow> required str_value d ''affiliateLink'';
     v_createdAt \<leftarrow> with_default datetime_value (utcnow_createdAt f) d ''createdAt'';
     v_updatedAt \<leftarrow> with_default datetime_value (utcnow_updatedAt f) d ''updatedAt'';
     Some \<lparr>p_id = v_id, p_name = v_name, p_category = v_category, p_price = v_price,
           p_image = v_image, p_description = v_description, p_specs = v_specs,
           p_rating = v_rating, p_reviews = v_reviews, p_featured = v_featured,
           p_affiliateLink = v_affiliateLink, p_createdAt = v_createdAt,
           p_updatedAt = v_updatedAt\<rparr>
   }"

definition Product_init :: "factories \<Rightarrow> dict \<Rightarrow> error + Product" where
  "Product_init f d = (case Product_fields f d of None \<Rightarrow> Inl ValidationError | Some p \<Rightarrow> Inr p)"

subsection \<open>The update model\<close>

text \<open>
  Every field of \<open>ProductUpdate\<close> is \<open>Optional\<close> with default \<open>None\<close>, and pydantic
  records which fields the request body gave. \<open>Unset\<close> is a field the body leaves out;
  \<open>Given v\<close> is a field the body gives, \<open>Given None\<close> being an explicit \<open>null\<close>.
  \<open>model_dump(exclude_unset=True)\<close> keeps exactly the fields that were given, each with
  its value.
\<close>

datatype 'a field = Unset | Given "'a option"

record ProductUpdate =
  u_name :: "string field"
  u_category :: "string field"
  u_price :: "real field"
  u_image :: "string field"
  u_description :: "string field"
  u_specs :: "string list field"
  u_rating :: "real field"
  u_reviews :: "int field"
  u_featured :: "bool field"
  u_affiliateLink :: "string field"

fun dump_field :: "string \<Rightarrow> ('a \<Rightarrow> jvalue) \<Rightarrow> 'a field \<Rightarrow> dict" where
  "dump_field k to_value Unset = []"
| "dump_field k to_value (Given None) = [(k, VNull)]"
| "dump_field k to_value (Given (Some v)) = [(k, to_value v)]"

definition ProductUpdate_model_dump_exclude_unset :: "ProductUpdate \<Rightarrow> dict" where
  "ProductUpdate_model_dump_exclude_unset u =
     dump_field ''name'' VStr (u_name u) @
     dump_field ''category'' VStr (u_category u) @
     dump_field ''price'' VFloat (u_price u) @
     dump_field ''image'' VStr (u_image u) @
     dump_field ''description'' VStr (u_description u) @
     dump_field ''specs'' VList (u_specs u) @
     dump_field ''rating'' VFloat (u_rating u) @
     dump_field ''reviews'' VInt (u_reviews u) @
     dump_field ''featured'' VBool (u_featured u) @
     dump_field ''affiliateLink'' VStr (u_affiliateLink u)"

record AdminLogin =
  l_username :: string
  l_password :: string

record AdminToken =
  t_token :: token
  t_username :: string

section \<open>The document store\<close>

text \<open>
  Modelled from the spec: the store is an external collaborator, "a document store
  exposing, per logical collection, operations equivalent to find-all, find-by-key,
  insert, update-by-key (partial), delete-by-key, each returning/accepting plain
  key-value records with a string \<open>id\<close> field". A collection is the list of its documents
  in insertion order. The filter \<open>{"id": product_id}\<close> selects the documents whose \<open>id\<close>
  is that string; \<open>find_one\<close>, \<open>update_one\<close> and \<open>delete_one\<close> act on the first of them.
  The store's own \<open>_id\<close> key, which every read of the routes projects away, is left out.
\<close>

type_synonym collection = "dict list"

definition matches :: "string \<Rightarrow> dict \<Rightarrow> bool" where
  "matches product_id d = (dict_get d ''id'' = Some (VStr product_id))"

fun find_one :: "collection \<Rightarrow> string \<Rightarrow> dict option" where
  "find_one [] product_id = None"
| "find_one (d # ds) product_id =
     (if matches product_id d then Some d else find_one ds product_id)"

definition find_to_list :: "collection \<Rightarrow> nat \<Rightarrow> dict list" where
  "find_to_list ds n = take n ds"

definition insert_one :: "collection \<Rightarrow> dict \<Rightarrow> collection" where
  "insert_one ds doc = ds @ [doc]"

text \<open>\<open>{"$set": update_data}\<close> assigns every key of \<open>update_data\<close> in the document.\<close>

fun update_one :: "collection \<Rightarrow> string \<Rightarrow> dict \<Rightarrow> collection" where
  "update_one [] product_id update_data = []"
| "update_one (d # ds) product_id update_data =
     (if matches product_id d then dict_update d update_data # ds
      else d # update_one ds product_id update_data)"

text \<open>\<open>delete_one\<close> returns the collection and the \<open>deleted_count\<close> of its result.\<close>

fun delete_one :: "collection \<Rightarrow> string \<Rightarrow> collection \<times> nat" where
  "delete_one [] product_id = ([], 0)"
| "delete_one (d # ds) product_id =
     (if matches product_id d then (ds, 1)
      else (case delete_one ds product_id of (ds', n) \<Rightarrow> (d # ds', n)))"

section \<open>server.py\<close>

text \<open>
  A route that reads the store takes the collection \<open>db.products\<close>; a route that writes it
  returns the collection it leaves behind, next to its result, also when it raises.
  \<open>not product\<close> holds of \<open>None\<close> and of an empty dictionary.
\<close>

definition falsy :: "dict option \<Rightarrow> bool" where
  "falsy r = (case r of None \<Rightarrow> True | Some d \<Rightarrow> d = [])"

definition isoformat :: "time \<Rightarrow> jvalue" where
  "isoformat t = VIso t"

definition Credenciales_incorrectas :: string where
  "Credenciales_incorrectas = ''Credenciales incorrectas''"

definition Producto_no_encontrado :: string where
  "Producto_no_encontrado = ''Producto no encontrado''"

definition Producto_eliminado_exitosamente :: string where
  "Producto_eliminado_exitosamente = ''Producto eliminado exitosamente''"

definition admin_login :: "environ \<Rightarrow> time \<Rightarrow> AdminLogin \<Rightarrow> error + AdminToken" where
  "admin_login env utcnow credentials =
     (if \<not> verify_admin_credentials env (l_username credentials) (l_password credentials)
      then Inl (HTTPException 401 Credenciales_incorrectas)
      else
        let access_token =
              create_access_token env utcnow [(''sub'', VStr (l_username credentials))]
                (Some (hours 24))
        in Inr \<lparr>t_token = access_token, t_username = l_username credentials\<rparr>)"

definition verify_admin :: "jvalue \<Rightarrow> dict" where
  "verify_admin username = [(''valid'', VBool True), (''username'', username)]"

definition get_products :: "collection \<Rightarrow> dict list" where
  "get_products db_products = find_to_list db_products 1000"

definition get_product :: "collection \<Rightarrow> string \<Rightarrow> error + dict" where
  "get_product db_products product_id =
     (let product = find_one db_products product_id in
      if falsy product then Inl (HTTPException 404 Producto_no_encontrado)
      else Inr (the product))"

text \<open>
  \<open>doc['createdAt']\<close> is the \<open>createdAt\<close> of \<open>new_product\<close>, which \<open>model_dump\<close> has just
  put there, and likewise \<open>doc['updatedAt']\<close>.
\<close>

definition create_product ::
  "factories \<Rightarrow> collection \<Rightarrow> ProductCreate \<Rightarrow> jvalue \<Rightarrow> (error + Product) \<times> collection" where
  "create_product f db_products product username =
     (let product_dict = ProductCreate_model_dump product in
      case Product_init f product_dict of
        Inl e \<Rightarrow> (Inl e, db_products)
      | Inr new_product \<Rightarrow>
          let doc = Product_model_dump new_product;
              doc = dict_set doc ''createdAt'' (isoformat (p_createdAt new_product));
              doc = dict_set doc ''updatedAt'' (isoformat (p_updatedAt new_product))
          in (Inr new_product, insert_one db_products doc))"

text \<open>
  \<open>utcnow\<close> is the reading of \<open>datetime.utcnow()\<close> taken for \<open>update_data\<close>. A second
  \<open>find_one\<close> that returned \<open>None\<close> would make \<open>Product(**None)\<close> a \<open>TypeError\<close>.
\<close>

definition update_product ::
  "factories \<Rightarrow> time \<Rightarrow> collection \<Rightarrow> string \<Rightarrow> ProductUpdate \<Rightarrow> jvalue \<Rightarrow>
   (error + Product) \<times> collection" where
  "update_product f utcnow db_products product_id product_update username =
     (let existing_product = find_one db_products product_id in
      if falsy existing_product
      then (Inl (HTTPException 404 Producto_no_encontrado), db_products)
      else
        let update_data = ProductUpdate_model_dump_exclude_unset product_update;
            update_data = dict_set update_data ''updatedAt'' (isoformat utcnow);
            db_products = update_one db_products product_id update_data
        in (case find_one db_products product_id of
              None \<Rightarrow> (Inl TypeError, db_products)
            | Some updated_product \<Rightarrow> (Product_init f updated_product, db_products)))"

definition delete_product ::
  "collection \<Rightarrow> string \<Rightarrow> jvalue \<Rightarrow> (error + dict) \<times> collection" where
  "delete_product db_products product_id username =
     (case delete_one db_products product_id of
        (db_products, deleted_count) \<Rightarrow>
          if deleted_count = 0
          then (Inl (HTTPException 404 Producto_no_encontrado), db_products)
          else (Inr [(''message'', VStr Producto_eliminado_exitosamente)], db_products))"

subsection \<open>The dependency of the protected routes\<close>

text \<open>
  Modelled from the spec: \<open>HTTPBearer\<close> belongs to the web framework. The spec's Auth Gate
  "extracts bearer token from the \<open>Authorization\<close> header; fails with
  \<open>MissingCredentials\<close> if absent", an authorization failure "(HTTP 403-equivalent)". The
  header of a request is absent, or names another scheme, or is a bearer header with its
  token.

  The framework resolves \<open>Depends(verify_token)\<close> before it calls the route's function: a
  dependency that raises ends the request, and the function is not called.
  \<open>now\<close> is the time at which the token is verified.
\<close>

datatype authorization = NoHeader | OtherScheme string | Bearer token

definition HTTPBearer :: "authorization \<Rightarrow> error + token" where
  "HTTPBearer a =
     (case a of
        NoHeader \<Rightarrow> Inl (HTTPException 403 ''Not authenticated'')
      | OtherScheme _ \<Rightarrow> Inl (HTTPException 403 ''Invalid authentication credentials'')
      | Bearer credentials \<Rightarrow> Inr credentials)"

definition Depends_verify_token :: "environ \<Rightarrow> time \<Rightarrow> authorization \<Rightarrow> error + jvalue" where
  "Depends_verify_token env now a =
     (case HTTPBearer a of
        Inl e \<Rightarrow> Inl e
      | Inr credentials \<Rightarrow> verify_token env now credentials)"

definition route_verify_admin :: "environ \<Rightarrow> time \<Rightarrow> authorization \<Rightarrow> error + dict" where
  "route_verify_admin env now a =
     (case Depends_verify_token env now a of
        Inl e \<Rightarrow> Inl e
      | Inr username \<Rightarrow> Inr (verify_admin username))"

definition route_create_product ::
  "environ \<Rightarrow> time \<Rightarrow> authorization \<Rightarrow> factories \<Rightarrow> collection \<Rightarrow> ProductCreate \<Rightarrow>
   (error + Product) \<times> collection" where
  "route_create_product env now a f db_products product =
     (case Depends_verify_token env now a of
        Inl e \<Rightarrow> (Inl e, db_products)
      | Inr username \<Rightarrow> create_product f db_products product username)"

definition route_update_product ::
  "environ \<Rightarrow> time \<Rightarrow> authorization \<Rightarrow> factories \<Rightarrow> time \<Rightarrow> collection \<Rightarrow> string \<Rightarrow>
   ProductUpdate \<Rightarrow> (error + Product) \<times> collection" where
  "route_update_product env now a f utcnow db_products product_id product_update =
     (case Depends_verify_token env now a of
        Inl e \<Rightarrow> (Inl e, db_products)
      | Inr username \<Rightarrow> update_product f utcnow db_products product_id product_update username)"

definition route_delete_product ::
  "environ \<Rightarrow> time \<Rightarrow> authorization \<Rightarrow> collection \<Rightarrow> string \<Rightarrow> (error + dict) \<times> collection" where
  "route_delete_product env now a db_products product_id =
     (case Depends_verify_token env now a of
        Inl e \<Rightarrow> (Inl e, db_products)
      | Inr username \<Rightarrow> delete_product db_products product_id username)"

section \<open>Notions used by the properties\<close>

text \<open>
  \<open>ProductUpdate_empty\<close> is \<open>ProductUpdate()\<close>, the update of a body that gives no field.
  \<open>Product_document p\<close> is the document \<open>create_product\<close> inserts for the product \<open>p\<close>: its
  \<open>model_dump\<close> with both timestamps in ISO format.
\<close>

definition ProductUpdate_empty :: ProductUpdate where
  "ProductUpdate_empty =
     \<lparr>u_name = Unset, u_category = Unset, u_price = Unset, u_image = Unset,
      u_description = Unset, u_specs = Unset, u_rating = Unset, u_reviews = Unset,
      u_featured = Unset, u_affiliateLink = Unset\<rparr>"

definition Product_document :: "Product \<Rightarrow> dict" where
  "Product_document p =
     dict_set (dict_set (Product_model_dump p) ''createdAt'' (isoformat (p_createdAt p)))
       ''updatedAt'' (isoformat (p_updatedAt p))"

text \<open>
  A running example: a product created from a body that gives only the required fields,
  with the identifier and the two clock readings its creation drew. \<open>numbered n\<close> is a
  document whose id is a string of \<open>n\<close> letters.
\<close>

definition sample_factories :: factories where
  "sample_factories = \<lparr>uuid4 = ''id-1'', utcnow_createdAt = 1000, utcnow_updatedAt = 1001\<rparr>"

definition sample_create :: ProductCreate where
  "sample_create = ProductCreate_init ''X'' ''Electronica'' 9.99 ''u'' ''d'' None None None None ''l''"

definition sample_product :: Product where
  "sample_product =
     \<lparr>p_id = ''id-1'', p_name = ''X'', p_category = ''Electronica'', p_price = 9.99,
      p_image = ''u'', p_description = ''d'', p_specs = [], p_rating = 4.5, p_reviews = 0,
      p_featured = False, p_affiliateLink = ''l'', p_createdAt = 1000, p_updatedAt = 1001\<rparr>"

definition numbered :: "nat \<Rightarrow> dict" where
  "numbered n = [(''id'', VStr (replicate n (CHR ''x'')))]"

section \<open>Dictionaries and the store\<close>

lemma dict_get_set: "dict_get (dict_set d k v) k' = (if k' = k then Some v else dict_get d k')"
  by (simp add: dict_get_def dict_set_def update_conv')

lemma dict_get_update_notin:
  "k \<notin> fst ` set e \<Longrightarrow> dict_get (dict_update d e) k = dict_get d k"
  by (induction d e rule: dict_update.induct) (auto simp: dict_get_set)

lemma keys_dict_set: "fst ` set (dict_set d k v) = insert k (fst ` set d)"
  by (simp add: dict_set_def AList.dom_update)

lemma find_one_None_iff: "find_one db pid = None \<longleftrightarrow> (\<forall>d \<in> set db. \<not> matches pid d)"
  by (induction db) auto

lemma find_one_Some_matches: "find_one db pid = Some d \<Longrightarrow> matches pid d"
  by (induction db) (auto split: if_splits)

lemma matches_nonempty: "matches pid d \<Longrightarrow> d \<noteq> []"
  by (auto simp: matches_def dict_get_def)

lemma falsy_find_one: "falsy (find_one db pid) \<longleftrightarrow> find_one db pid = None"
  by (auto simp: falsy_def split: option.splits dest: find_one_Some_matches matches_nonempty)

lemma delete_one_count: "snd (delete_one db pid) = 0 \<longleftrightarrow> find_one db pid = None"
  by (induction db) (auto split: prod.splits)

lemma delete_one_none: "find_one db pid = None \<Longrightarrow> delete_one db pid = (db, 0)"
  by (induction db) (auto split: prod.splits if_splits)

lemma matches_dict_update:
  "''id'' \<notin> fst ` set e \<Longrightarrow> matches pid (dict_update d e) = matches pid d"
  by (simp add: matches_def dict_get_update_notin)

lemma find_one_update_one:
  "''id'' \<notin> fst ` set e \<Longrightarrow>
   find_one (update_one db pid e) pid = map_option (\<lambda>d. dict_update d e) (find_one db pid)"
  by (induction db) (auto simp: matches_dict_update)

lemma update_one_ids:
  "''id'' \<notin> fst ` set e \<Longrightarrow>
   map (\<lambda>d. dict_get d ''id'') (update_one db pid e) = map (\<lambda>d. dict_get d ''id'') db"
  by (induction db) (auto simp: dict_get_update_notin)

lemma keys_dump_field: "k' \<noteq> k \<Longrightarrow> k' \<notin> fst ` set (dump_field k conv v)"
  by (cases "(k, conv, v)" rule: dump_field.cases) auto

lemma update_data_no_id:
  "''id'' \<notin> fst ` set (dict_set (ProductUpdate_model_dump_exclude_unset u) ''updatedAt'' v)"
  by (simp add: keys_dict_set ProductUpdate_model_dump_exclude_unset_def image_Un keys_dump_field)

section \<open>The update route, case by case\<close>

lemma update_product_found:
  assumes "find_one db pid = Some d"
  shows "update_product f utcnow db pid u username =
     (Product_init f (dict_update d
        (dict_set (ProductUpdate_model_dump_exclude_unset u) ''updatedAt'' (isoformat utcnow))),
      update_one db pid
        (dict_set (ProductUpdate_model_dump_exclude_unset u) ''updatedAt'' (isoformat utcnow)))"
proof -
  have "\<not> falsy (find_one db pid)"
    using assms falsy_find_one [of db pid] by simp
  then show ?thesis
    using assms
    by (simp add: update_product_def Let_def find_one_update_one update_data_no_id
        del: find_one.simps)
qed

lemma update_product_not_found:
  assumes "find_one db pid = None"
  shows "update_product f utcnow db pid u username =
     (Inl (HTTPException 404 Producto_no_encontrado), db)"
proof -
  have "falsy (find_one db pid)"
    using assms falsy_find_one [of db pid] by simp
  then show ?thesis
    by (simp add: update_product_def Let_def)
qed

lemma Product_init_not_HTTPException: "Product_init f d \<noteq> Inl (HTTPException c m)"
  by (simp add: Product_init_def split: option.splits)

section \<open>Validation and the documents of products\<close>

lemmas validation_defs =
  Product_init_def Product_fields_def required_def with_default_def dict_get_def

lemma Product_document_eq:
  "Product_document p =
     [(''id'', VStr (p_id p)),
      (''name'', VStr (p_name p)),
      (''category'', VStr (p_category p)),
      (''price'', VFloat (p_price p)),
      (''image'', VStr (p_image p)),
      (''description'', VStr (p_description p)),
      (''specs'', VList (p_specs p)),
      (''rating'', VFloat (p_rating p)),
      (''reviews'', VInt (p_reviews p)),
      (''featured'', VBool (p_featured p)),
      (''affiliateLink'', VStr (p_affiliateLink p)),
      (''createdAt'', VIso (p_createdAt p)),
      (''updatedAt'', VIso (p_updatedAt p))]"
  by (simp add: Product_document_def Product_model_dump_def dict_set_def isoformat_def)

lemma Product_init_document: "Product_init f (Product_document p) = Inr p"
  by (simp add: Product_document_eq validation_defs)

lemma find_one_document: "find_one (Product_document p # db) (p_id p) = Some (Product_document p)"
  by (simp add: matches_def dict_get_def Product_document_eq)

lemma Product_fields_update_price:
  assumes "Product_fields f d = Some p"
  shows "Product_fields f (dict_update d [(''price'', VFloat x), (''updatedAt'', VIso t)])
     = Some (p\<lparr>p_price := x, p_updatedAt := t\<rparr>)"
  using assms
  by (auto simp: Product_fields_def required_def with_default_def bind_eq_Some_conv dict_get_set)

lemma Product_init_update_price:
  assumes "Product_init f d = Inr p"
  shows "Product_init f (dict_update d [(''price'', VFloat x), (''updatedAt'', VIso t)])
     = Inr (p\<lparr>p_price := x, p_updatedAt := t\<rparr>)"
proof -
  from assms have "Product_fields f d = Some p"
    by (simp add: Product_init_def split: option.splits)
  then show ?thesis
    by (simp add: Product_init_def Product_fields_update_price del: dict_update.simps)
qed

lemma update_data_price:
  "dict_set (ProductUpdate_model_dump_exclude_unset (ProductUpdate_empty\<lparr>u_price := Given (Some x)\<rparr>))
     ''updatedAt'' (isoformat t) = [(''price'', VFloat x), (''updatedAt'', VIso t)]"
  by (simp add: ProductUpdate_model_dump_exclude_unset_def ProductUpdate_empty_def dict_set_def
      isoformat_def)

lemma update_data_null_name:
  "dict_set (ProductUpdate_model_dump_exclude_unset (ProductUpdate_empty\<lparr>u_name := Given None\<rparr>))
     ''updatedAt'' (isoformat t) = [(''name'', VNull), (''updatedAt'', VIso t)]"
  by (simp add: ProductUpdate_model_dump_exclude_unset_def ProductUpdate_empty_def dict_set_def
      isoformat_def)

lemma sample_find_one:
  "find_one [Product_document sample_product] ''id-1'' = Some (Product_document sample_product)"
  using find_one_document [of sample_product "[]"] by (simp add: sample_product_def)

lemma sample_update_price:
  "update_product sample_factories 2000 [Product_document sample_product] ''id-1''
      (ProductUpdate_empty\<lparr>u_price := Given (Some 10)\<rparr>) (VStr ''admin'')
    = (Inr (sample_product\<lparr>p_price := 10, p_updatedAt := 2000\<rparr>),
       [Product_document (sample_product\<lparr>p_price := 10, p_updatedAt := 2000\<rparr>)])"
  unfolding update_product_found [OF sample_find_one] update_data_price
  by (simp add: matches_def Product_document_eq validation_defs dict_set_def
      sample_product_def)

section \<open>Tokens\<close>

lemma whole_seconds:
  "(x div 1000000) * 1000000 \<le> x \<and> x < (x div 1000000) * 1000000 + (1000000::int)"
proof -
  have "x = (x div 1000000) * 1000000 + x mod 1000000"
    by simp
  moreover have "0 \<le> x mod 1000000" and "x mod 1000000 < 1000000"
    by simp_all
  ultimately show ?thesis
    by linarith
qed

lemma decode_issued:
  "jwt_decode (create_access_token env utcnow [(''sub'', VStr s)] (Some d))
     (SECRET_KEY env) [ALGORITHM] t
     = (if ((utcnow + (if d = 0 then hours 24 else d)) div 1000000) * 1000000 \<le> t
        then Inl ExpiredSignatureError
        else Inr [(''sub'', VStr s),
                  (''exp'', VInt ((utcnow + (if d = 0 then hours 24 else d)) div 1000000))])"
  by (simp add: jwt_decode_def create_access_token_def jwt_encode_def truthy_def
      time_claims_def dict_set_def dict_get_def Let_def)

lemma verify_issued:
  "verify_token env t (create_access_token env utcnow [(''sub'', VStr s)] (Some d))
     = (if ((utcnow + (if d = 0 then hours 24 else d)) div 1000000) * 1000000 \<le> t
        then Inl (HTTPException 403 Token_expirado) else Inr (VStr s))"
  by (simp add: verify_token_def verify_token_try_def decode_issued dict_get_def)

lemma verify_token_undecodable: "verify_token env now (Undecodable x) = Inl AttributeError"
  by (simp add: verify_token_def verify_token_try_def jwt_decode_def)

lemma verify_token_bad_tag:
  "tag \<noteq> HMAC ALGORITHM (SECRET_KEY env) payload \<Longrightarrow>
   verify_token env now (JWS payload tag) = Inl AttributeError"
  by (simp add: verify_token_def verify_token_try_def jwt_decode_def)

lemma verify_token_outcomes:
  "verify_token env now t = Inl e \<Longrightarrow>
   e = HTTPException 403 Token_expirado \<or> e = AttributeError"
  by (auto simp: verify_token_def
      split: sum.splits raised.splits jwt_exception.splits)

lemma protected_routes_reject:
  assumes "Depends_verify_token env now a = Inl e"
  shows "route_verify_admin env now a = Inl e"
    and "route_create_product env now a f db product = (Inl e, db)"
    and "route_update_product env now a f utcnow db pid product_update = (Inl e, db)"
    and "route_delete_product env now a db pid = (Inl e, db)"
  using assms
  by (simp_all add: route_verify_admin_def route_create_product_def route_update_product_def
      route_delete_product_def)

section \<open>The claims\<close>

text \<open>
  C4. The credential check accepts a pair of strings exactly when the username equals
  the configured admin username and the password equals the configured admin password;
  the configured values are those of the environment, \<open>admin\<close> and \<open>admin123\<close> when the
  environment gives none.
\<close>

theorem verify_admin_credentials_exact:
  "verify_admin_credentials env username password \<longleftrightarrow>
     username = environ_get env ''ADMIN_USERNAME'' ''admin'' \<and>
     password = environ_get env ''ADMIN_PASSWORD'' ''admin123''"
  by (simp add: verify_admin_credentials_def ADMIN_USERNAME_def ADMIN_PASSWORD_def)

theorem verify_admin_credentials_exact_witness:
  "verify_admin_credentials Map.empty ''admin'' ''admin123'' \<and>
   \<not> verify_admin_credentials Map.empty ''admin'' ''admin''"
  using verify_admin_credentials_exact [of Map.empty "''admin''" "''admin123''"]
    verify_admin_credentials_exact [of Map.empty "''admin''" "''admin''"]
  by (simp add: environ_get_def)

text \<open>
  C1, as amended. A token issued for subject \<open>s\<close> at time \<open>utcnow\<close> expires at the instant
  \<open>utcnow\<close> + ttl rounded down to a whole second, the ttl being \<open>d\<close> when \<open>d\<close> is not zero
  and the default of 24 hours when it is: the token verifies to \<open>s\<close> at every time before
  that instant and fails as expired from that instant on. So for a ttl other than zero
  it verifies to \<open>s\<close> as long as a second or more of the ttl remains, and it fails as
  expired once the ttl has elapsed.
\<close>

theorem issue_then_verify:
  "(t < ((utcnow + (if d = 0 then hours 24 else d)) div 1000000) * 1000000 \<longrightarrow>
      verify_token env t (create_access_token env utcnow [(''sub'', VStr s)] (Some d))
        = Inr (VStr s)) \<and>
   (((utcnow + (if d = 0 then hours 24 else d)) div 1000000) * 1000000 \<le> t \<longrightarrow>
      verify_token env t (create_access_token env utcnow [(''sub'', VStr s)] (Some d))
        = Inl (HTTPException 403 Token_expirado)) \<and>
   (d \<noteq> 0 \<and> t + 1000000 \<le> utcnow + d \<longrightarrow>
      verify_token env t (create_access_token env utcnow [(''sub'', VStr s)] (Some d))
        = Inr (VStr s)) \<and>
   (d \<noteq> 0 \<and> utcnow + d \<le> t \<longrightarrow>
      verify_token env t (create_access_token env utcnow [(''sub'', VStr s)] (Some d))
        = Inl (HTTPException 403 Token_expirado))"
proof -
  have "d \<noteq> 0 \<Longrightarrow> t + 1000000 \<le> utcnow + d \<Longrightarrow>
      \<not> ((utcnow + d) div 1000000) * 1000000 \<le> t"
    using whole_seconds [of "utcnow + d"] by linarith
  moreover have "d \<noteq> 0 \<Longrightarrow> utcnow + d \<le> t \<Longrightarrow>
      ((utcnow + d) div 1000000) * 1000000 \<le> t"
    using whole_seconds [of "utcnow + d"] by linarith
  ultimately show ?thesis
    by (simp add: verify_issued)
qed

theorem issue_then_verify_witness:
  "verify_token Map.empty 2500000
     (create_access_token Map.empty 1900000 [(''sub'', VStr ''admin'')] (Some 5000000))
     = Inr (VStr ''admin'') \<and>
   verify_token Map.empty 6000000
     (create_access_token Map.empty 1900000 [(''sub'', VStr ''admin'')] (Some 5000000))
     = Inl (HTTPException 403 Token_expirado) \<and>
   verify_token Map.empty 6900000
     (create_access_token Map.empty 1900000 [(''sub'', VStr ''admin'')] (Some 5000000))
     = Inl (HTTPException 403 Token_expirado) \<and>
   verify_token Map.empty 2500000
     (create_access_token Map.empty 1900000 [(''sub'', VStr ''admin'')] (Some 1000000))
     = Inl (HTTPException 403 Token_expirado) \<and>
   verify_token Map.empty 1900001
     (create_access_token Map.empty 1900000 [(''sub'', VStr ''admin'')] (Some 0))
     = Inr (VStr ''admin'') \<and>
   verify_token Map.empty 86401000000
     (create_access_token Map.empty 1900000 [(''sub'', VStr ''admin'')] (Some 0))
     = Inl (HTTPException 403 Token_expirado)"
  using issue_then_verify [of 2500000 1900000 5000000 Map.empty "''admin''"]
    issue_then_verify [of 6000000 1900000 5000000 Map.empty "''admin''"]
    issue_then_verify [of 6900000 1900000 5000000 Map.empty "''admin''"]
    issue_then_verify [of 2500000 1900000 1000000 Map.empty "''admin''"]
    issue_then_verify [of 1900001 1900000 0 Map.empty "''admin''"]
    issue_then_verify [of 86401000000 1900000 0 Map.empty "''admin''"]
  by (simp add: hours_def)

text \<open>
  The claim as stated fails for a ttl of zero: issued at time 1000 with ttl 0, the token
  still verifies to its subject at time 1001, after the ttl has elapsed.
\<close>

theorem zero_ttl_not_expired:
  "verify_token Map.empty 1001
     (create_access_token Map.empty 1000 [(''sub'', VStr ''admin'')] (Some 0))
     = Inr (VStr ''admin'')"
  by (simp add: verify_issued hours_def)

text \<open>
  It also fails within the last second of a ttl: issued at 1.9 s with a ttl of one second,
  the token expires at 2 s and is refused at 2.5 s, before the ttl has elapsed.
\<close>

lemma last_second_expired:
  "verify_token Map.empty 2500000
     (create_access_token Map.empty 1900000 [(''sub'', VStr ''admin'')] (Some 1000000))
     = Inl (HTTPException 403 Token_expirado)"
  by (simp add: verify_issued)

text \<open>
  C7. Each of \<open>get_product\<close>, \<open>update_product\<close> and \<open>delete_product\<close> fails with the 404
  error exactly when no document of the store has the given id, and the two routes that
  write leave the store as it was in that case.
\<close>

theorem not_found_iff:
  "(get_product db pid = Inl (HTTPException 404 Producto_no_encontrado)
      \<longleftrightarrow> (\<forall>d \<in> set db. \<not> matches pid d)) \<and>
   (fst (update_product f utcnow db pid u username)
        = Inl (HTTPException 404 Producto_no_encontrado)
      \<longleftrightarrow> (\<forall>d \<in> set db. \<not> matches pid d)) \<and>
   (fst (delete_product db pid username) = Inl (HTTPException 404 Producto_no_encontrado)
      \<longleftrightarrow> (\<forall>d \<in> set db. \<not> matches pid d)) \<and>
   ((\<forall>d \<in> set db. \<not> matches pid d) \<longrightarrow>
      snd (update_product f utcnow db pid u username) = db \<and>
      snd (delete_product db pid username) = db)"
proof -
  have g: "get_product db pid = Inl (HTTPException 404 Producto_no_encontrado)
      \<longleftrightarrow> find_one db pid = None"
    by (simp add: get_product_def falsy_find_one Let_def)
  have u: "fst (update_product f utcnow db pid u username)
        = Inl (HTTPException 404 Producto_no_encontrado)
      \<longleftrightarrow> find_one db pid = None"
    by (cases "find_one db pid")
      (simp_all add: update_product_found update_product_not_found
        Product_init_not_HTTPException)
  have d: "fst (delete_product db pid username)
        = Inl (HTTPException 404 Producto_no_encontrado)
      \<longleftrightarrow> find_one db pid = None"
    using delete_one_count [of db pid]
    by (auto simp: delete_product_def split: prod.splits)
  have f: "find_one db pid = None \<Longrightarrow>
      snd (update_product f utcnow db pid u username) = db \<and>
      snd (delete_product db pid username) = db"
    by (simp add: update_product_not_found delete_product_def delete_one_none)
  show ?thesis using g u d f by (simp add: find_one_None_iff)
qed

theorem not_found_iff_witness:
  "get_product [Product_document sample_product] ''other'' =
     Inl (HTTPException 404 Producto_no_encontrado) \<and>
   update_product sample_factories 2000 [Product_document sample_product] ''other''
       ProductUpdate_empty (VStr ''admin'')
     = (Inl (HTTPException 404 Producto_no_encontrado), [Product_document sample_product]) \<and>
   delete_product [Product_document sample_product] ''other'' (VStr ''admin'')
     = (Inl (HTTPException 404 Producto_no_encontrado), [Product_document sample_product]) \<and>
   get_product [Product_document sample_product] ''id-1'' \<noteq>
     Inl (HTTPException 404 Producto_no_encontrado)"
  using not_found_iff [of "[Product_document sample_product]" "''other''" sample_factories 2000
      ProductUpdate_empty "VStr ''admin''"]
    not_found_iff [of "[Product_document sample_product]" "''id-1''" sample_factories 2000
      ProductUpdate_empty "VStr ''admin''"]
  by (simp add: matches_def dict_get_def prod_eq_iff Product_document_eq sample_product_def)

text \<open>
  C9. An update never changes an id: after \<open>update_product\<close>, whatever its outcome, every
  document of the store has the id it had before, and a product the update returns has
  the id the request named.
\<close>

theorem update_keeps_ids:
  "map (\<lambda>d. dict_get d ''id'') (snd (update_product f utcnow db pid u username))
     = map (\<lambda>d. dict_get d ''id'') db \<and>
   (\<forall>p. fst (update_product f utcnow db pid u username) = Inr p \<longrightarrow> p_id p = pid)"
proof (cases "find_one db pid")
  case None
  then show ?thesis by (simp add: update_product_not_found)
next
  case (Some d)
  let ?e = "dict_set (ProductUpdate_model_dump_exclude_unset u) ''updatedAt'' (isoformat utcnow)"
  have "dict_get (dict_update d ?e) ''id'' = Some (VStr pid)"
    using find_one_Some_matches [OF Some]
    by (simp add: dict_get_update_notin update_data_no_id matches_def)
  then have "Product_init f (dict_update d ?e) = Inr p \<Longrightarrow> p_id p = pid" for p
    by (auto simp: Product_init_def Product_fields_def with_default_def bind_eq_Some_conv
        split: option.splits)
  then show ?thesis
    by (simp add: update_product_found [OF Some] update_one_ids update_data_no_id)
qed

theorem update_keeps_ids_witness:
  "map (\<lambda>d. dict_get d ''id'')
     (snd (update_product sample_factories 2000 [Product_document sample_product] ''id-1''
        (ProductUpdate_empty\<lparr>u_price := Given (Some 10)\<rparr>) (VStr ''admin'')))
     = [Some (VStr ''id-1'')] \<and>
   fst (update_product sample_factories 2000 [Product_document sample_product] ''id-1''
        (ProductUpdate_empty\<lparr>u_price := Given (Some 10)\<rparr>) (VStr ''admin''))
     = Inr (sample_product\<lparr>p_price := 10, p_updatedAt := 2000\<rparr>) \<and>
   p_id (sample_product\<lparr>p_price := 10, p_updatedAt := 2000\<rparr>) = ''id-1''"
proof -
  have "fst (update_product sample_factories 2000 [Product_document sample_product] ''id-1''
        (ProductUpdate_empty\<lparr>u_price := Given (Some 10)\<rparr>) (VStr ''admin''))
      = Inr (sample_product\<lparr>p_price := 10, p_updatedAt := 2000\<rparr>)"
    by (simp add: sample_update_price)
  then show ?thesis
    using update_keeps_ids [of sample_factories 2000 "[Product_document sample_product]"
        "''id-1''" "ProductUpdate_empty\<lparr>u_price := Given (Some 10)\<rparr>" "VStr ''admin''"]
    by (simp add: dict_get_def Product_document_eq sample_product_def)
qed

text \<open>
  C3. The claim does not hold of the code. A string that is no token, a token signed with
  another secret, a token whose payload is not the signed one, and a verified, unexpired
  token without a subject all leave \<open>verify_token\<close> with an \<open>AttributeError\<close>, a server
  error, where the claim has the 403 "Token invalido". Only the expired token
  fails as the claim says.
\<close>

theorem invalid_token_is_AttributeError:
  "verify_token Map.empty 100000000 (Undecodable ''garbage'') = Inl AttributeError \<and>
   verify_token Map.empty 100000000
     (jwt_encode [(''sub'', VStr ''admin''), (''exp'', VDatetime 200000000)] ''another secret''
        ALGORITHM)
     = Inl AttributeError \<and>
   verify_token Map.empty 100000000
     (JWS [(''sub'', VStr ''root''), (''exp'', VInt 200)]
        (HMAC ALGORITHM (SECRET_KEY Map.empty) [(''sub'', VStr ''admin''), (''exp'', VInt 200)]))
     = Inl AttributeError \<and>
   verify_token Map.empty 100000000
     (jwt_encode [(''exp'', VDatetime 200000000)] (SECRET_KEY Map.empty) ALGORITHM)
     = Inl AttributeError \<and>
   verify_token Map.empty 200000000
     (jwt_encode [(''sub'', VStr ''admin''), (''exp'', VDatetime 200000000)]
        (SECRET_KEY Map.empty) ALGORITHM)
     = Inl (HTTPException 403 Token_expirado)"
  by (simp add: verify_token_def verify_token_try_def jwt_decode_def jwt_encode_def
      time_claims_def dict_get_def SECRET_KEY_def environ_get_def ALGORITHM_def Let_def)

text \<open>
  C2. The claim does not hold of the code. A protected route does leave the store alone
  and does not run its function when the verification of the token fails, but a request
  with a token that is not valid ends with the \<open>AttributeError\<close> of \<open>verify_token\<close>, a
  server error, where the claim has a 403.
\<close>

theorem invalid_token_on_protected_routes:
  "route_verify_admin Map.empty 100 (Bearer (Undecodable ''garbage'')) = Inl AttributeError \<and>
   route_create_product Map.empty 100 (Bearer (Undecodable ''garbage'')) sample_factories []
       sample_create
     = (Inl AttributeError, []) \<and>
   route_update_product Map.empty 100 (Bearer (Undecodable ''garbage'')) sample_factories 2000
       [Product_document sample_product] ''id-1'' ProductUpdate_empty
     = (Inl AttributeError, [Product_document sample_product]) \<and>
   route_delete_product Map.empty 100 (Bearer (Undecodable ''garbage''))
       [Product_document sample_product] ''id-1''
     = (Inl AttributeError, [Product_document sample_product])"
proof -
  have "Depends_verify_token Map.empty 100 (Bearer (Undecodable ''garbage''))
      = Inl AttributeError"
    by (simp add: Depends_verify_token_def HTTPBearer_def verify_token_undecodable)
  then show ?thesis
    by (simp add: protected_routes_reject)
qed

text \<open>
  C5. For a stored document that validates as the product \<open>p\<close>, an update that gives only
  the price returns \<open>p\<close> with the new price and with \<open>updatedAt\<close> set to the clock reading
  of the update, every other field being that of \<open>p\<close>; and the document then stored under
  the id validates as that same product.
\<close>

theorem update_price_only:
  assumes "find_one db pid = Some d" and "Product_init f d = Inr p"
  shows "fst (update_product f utcnow db pid (ProductUpdate_empty\<lparr>u_price := Given (Some x)\<rparr>)
            username)
           = Inr (p\<lparr>p_price := x, p_updatedAt := utcnow\<rparr>) \<and>
         map_option (Product_init f)
           (find_one (snd (update_product f utcnow db pid
              (ProductUpdate_empty\<lparr>u_price := Given (Some x)\<rparr>) username)) pid)
           = Some (Inr (p\<lparr>p_price := x, p_updatedAt := utcnow\<rparr>))"
proof -
  let ?e = "[(''price'', VFloat x), (''updatedAt'', VIso utcnow)]"
  have "''id'' \<notin> fst ` set ?e" by simp
  then have "find_one (update_one db pid ?e) pid = map_option (\<lambda>d. dict_update d ?e) (Some d)"
    unfolding assms(1) [symmetric] by (rule find_one_update_one)
  then show ?thesis
    using Product_init_update_price [OF assms(2), of x utcnow]
    by (simp add: update_product_found [OF assms(1)] update_data_price
        del: dict_update.simps)
qed

theorem update_price_only_witness:
  "update_product sample_factories 2000 [Product_document sample_product] ''id-1''
      (ProductUpdate_empty\<lparr>u_price := Given (Some 10)\<rparr>) (VStr ''admin'')
    = (Inr (sample_product\<lparr>p_price := 10, p_updatedAt := 2000\<rparr>),
       [Product_document (sample_product\<lparr>p_price := 10, p_updatedAt := 2000\<rparr>)])"
proof -
  have "snd (update_product sample_factories 2000 [Product_document sample_product] ''id-1''
      (ProductUpdate_empty\<lparr>u_price := Given (Some 10)\<rparr>) (VStr ''admin''))
      = [Product_document (sample_product\<lparr>p_price := 10, p_updatedAt := 2000\<rparr>)]"
    by (simp add: sample_update_price)
  then show ?thesis
    using update_price_only [OF sample_find_one Product_init_document,
        of sample_factories 2000 10 "VStr ''admin''"]
    by (simp add: prod_eq_iff)
qed

text \<open>
  C6, as amended. \<open>create_product\<close> returns a product with the identifier the server drew,
  whatever the body holds, with the fields of the body, with rating 4.5, no reviews, no
  specs and not featured where the body gives none, with \<open>createdAt\<close> and \<open>updatedAt\<close>
  each set to the clock reading of its own default factory, and appends the document of
  that product to the store.
\<close>

theorem create_product_result:
  "create_product f db
     (ProductCreate_init name category price image' description specs rating reviews featured
        affiliateLink) username =
   (let new_product =
      \<lparr>p_id = uuid4 f, p_name = name, p_category = category, p_price = price,
       p_image = image', p_description = description,
       p_specs = (case specs of None \<Rightarrow> [] | Some v \<Rightarrow> v),
       p_rating = (case rating of None \<Rightarrow> 4.5 | Some v \<Rightarrow> v),
       p_reviews = (case reviews of None \<Rightarrow> 0 | Some v \<Rightarrow> v),
       p_featured = (case featured of None \<Rightarrow> False | Some v \<Rightarrow> v),
       p_affiliateLink = affiliateLink,
       p_createdAt = utcnow_createdAt f, p_updatedAt = utcnow_updatedAt f\<rparr>
    in (Inr new_product, db @ [Product_document new_product]))"
  by (simp add: create_product_def ProductCreate_model_dump_def ProductCreate_init_def
      validation_defs insert_one_def Product_document_def Let_def)

theorem create_product_result_witness:
  "create_product sample_factories [] sample_create (VStr ''admin'')
     = (Inr sample_product, [Product_document sample_product])"
  using create_product_result [of sample_factories "[]" "''X''" "''Electronica''" "9.99" "''u''"
      "''d''" None None None None "''l''" "VStr ''admin''"]
  by (simp add: sample_create_def sample_product_def sample_factories_def Let_def)

text \<open>
  The claim as stated fails where the two clock readings differ: the product created with
  readings 1000 and 1001 has a \<open>createdAt\<close> other than its \<open>updatedAt\<close>.
\<close>

theorem created_timestamps_differ:
  "fst (create_product sample_factories [] sample_create (VStr ''admin'')) = Inr sample_product \<and>
   p_createdAt sample_product \<noteq> p_updatedAt sample_product"
  by (simp add: sample_create_def sample_factories_def sample_product_def create_product_def
      ProductCreate_model_dump_def ProductCreate_init_def validation_defs Let_def)

text \<open>
  C8. The claim does not hold of the code: \<open>get_products\<close> returns the first 1000
  documents of the store and no more. Of a store of 1001 products, the last one is in the
  store and not in the list returned.
\<close>

theorem get_products_capped:
  "numbered 1000 \<in> set (map numbered [0..<1001]) \<and>
   numbered 1000 \<notin> set (get_products (map numbered [0..<1001]))"
proof -
  have "take 1000 (map numbered [0..<1001]) = map numbered [0..<1000]"
    by (simp add: take_map)
  moreover have "numbered 1000 \<notin> numbered ` {0..<1000}"
    by (auto simp: numbered_def)
  ultimately show ?thesis
    by (simp add: get_products_def find_to_list_def)
qed

lemma get_products_take:
  "get_products db = take 1000 db"
  by (simp add: get_products_def find_to_list_def)

text \<open>
  C10. The claim does not hold of the code: an update whose body gives \<open>name\<close> as an
  explicit \<open>null\<close> writes \<open>null\<close> over the stored name, and then fails to validate the
  stored document as a product.
\<close>

theorem explicit_null_clears_name:
  "update_product sample_factories 2000 [Product_document sample_product] ''id-1''
      (ProductUpdate_empty\<lparr>u_name := Given None\<rparr>) (VStr ''admin'')
    = (Inl ValidationError,
       [dict_set (dict_set (Product_document sample_product) ''name'' VNull)
          ''updatedAt'' (VIso 2000)])"
  unfolding update_product_found [OF sample_find_one] update_data_null_name
  by (simp add: matches_def Product_document_eq validation_defs dict_set_def
      sample_product_def)

end
